theory Spec2Isabelle
  imports Complex_Main "HOL-Library.Sublist"
begin

section \<open>Lead dispatch system: values and tables\<close>

text \<open>
  The development embeds the matching and dispatch engine of
  \<^verbatim>\<open>lead_dispatch_system.py\<close>. Python floats are read as real numbers, with the
  one non-finite value the code writes (\<^verbatim>\<open>float('inf')\<close>) kept as a constructor.
  Strings are ASCII text: the only case folding is between \<^verbatim>\<open>A-Z\<close> and \<^verbatim>\<open>a-z\<close>,
  which is where Python's \<^verbatim>\<open>str.lower\<close> and SQLite's \<^verbatim>\<open>LIKE\<close> agree.
  Timestamps are clock ticks: the ISO strings of \<^verbatim>\<open>get_timestamp\<close> are ordered as
  the instants they denote.
\<close>

type_synonym time = nat

datatype pyfloat = Fin real | PInf

datatype error = ValueError | TypeError

text \<open>A \<^verbatim>\<open>REAL\<close> column read back into Python: \<^verbatim>\<open>None\<close> for \<^verbatim>\<open>NULL\<close>, a float otherwise.\<close>

type_synonym coord = "real option"

text \<open>Python truthiness of such a value: \<^verbatim>\<open>None\<close> and \<^verbatim>\<open>0.0\<close> are false.\<close>

definition truthy :: "coord \<Rightarrow> bool" where
  "truthy v = (case v of None \<Rightarrow> False | Some x \<Rightarrow> x \<noteq> 0)"

text \<open>\<^verbatim>\<open>d - r\<close> and \<^verbatim>\<open>s < b\<close> on floats, where the left operand may be infinite.\<close>

fun float_sub :: "pyfloat \<Rightarrow> real \<Rightarrow> pyfloat" where
  "float_sub (Fin d) r = Fin (d - r)"
| "float_sub PInf r = PInf"

fun float_less :: "pyfloat \<Rightarrow> pyfloat \<Rightarrow> bool" where
  "float_less (Fin a) (Fin b) = (a < b)"
| "float_less (Fin a) PInf = True"
| "float_less PInf b = False"

subsection \<open>Rows of the store\<close>

record lead =
  lead_id :: int
  lead_name :: string
  category :: string
  address :: string
  lead_lat :: coord
  lead_lon :: coord
  lead_phone :: string
  lead_email :: string
  source :: string
  lead_status :: string
  lead_created_at :: time
  lead_updated_at :: "time option"

text \<open>
  \<^verbatim>\<open>rating REAL DEFAULT 0.0\<close> and \<^verbatim>\<open>jobs_completed INTEGER DEFAULT 0\<close>: no statement of
  the program writes either column, so a row always carries a number there.
\<close>

record worker =
  worker_id :: int
  worker_name :: string
  skills :: string
  worker_phone :: string
  worker_email :: string
  worker_lat :: coord
  worker_lon :: coord
  worker_status :: string
  rating :: real
  jobs_completed :: int
  worker_created_at :: time

record job =
  job_id :: int
  job_lead_id :: int
  job_worker_id :: int
  job_service :: string
  price :: real
  job_status :: string
  job_created_at :: time

text \<open>
  The database file: each table is the list of its rows in rowid order, and the
  \<^verbatim>\<open>AUTOINCREMENT\<close> counters of \<^verbatim>\<open>sqlite_sequence\<close> hold the largest id handed out
  so far (they start at 0, so the first id is 1).
\<close>

record db =
  leads :: "lead list"
  workers :: "worker list"
  jobs :: "job list"
  leads_seq :: nat
  workers_seq :: nat
  jobs_seq :: nat

section \<open>Strings\<close>

definition ascii_uppercase :: string where
  "ascii_uppercase = ''ABCDEFGHIJKLMNOPQRSTUVWXYZ''"

definition ascii_lowercase :: string where
  "ascii_lowercase = ''abcdefghijklmnopqrstuvwxyz''"

definition lower_char :: "char \<Rightarrow> char" where
  "lower_char c = (case map_of (zip ascii_uppercase ascii_lowercase) c of
                     None \<Rightarrow> c | Some d \<Rightarrow> d)"

text \<open>\<^verbatim>\<open>str.lower()\<close>\<close>

definition lower :: "string \<Rightarrow> string" where
  "lower s = map lower_char s"

text \<open>
  SQLite's \<^verbatim>\<open>text LIKE pattern\<close> with no \<^verbatim>\<open>ESCAPE\<close>: \<^verbatim>\<open>%\<close> matches any run of
  characters, \<^verbatim>\<open>_\<close> exactly one, any other character itself up to ASCII case.
\<close>

fun like :: "string \<Rightarrow> string \<Rightarrow> bool" where
  "like [] t = (t = [])"
| "like (p # ps) [] = (p = CHR ''%'' \<and> like ps [])"
| "like (p # ps) (c # cs) =
     (if p = CHR ''%'' then like ps (c # cs) \<or> like (p # ps) cs
      else (p = CHR ''_'' \<or> lower_char p = lower_char c) \<and> like ps cs)"

text \<open>The reading the specification gives: a substring, compared without case.\<close>

definition contains_ci :: "string \<Rightarrow> string \<Rightarrow> bool" where
  "contains_ci text s = sublist (lower s) (lower text)"

section \<open>Geospatial distance\<close>

definition radians :: "real \<Rightarrow> real" where
  "radians x = x * pi / 180"

text \<open>\<^verbatim>\<open>math.atan2(y, x)\<close>\<close>

definition atan2 :: "real \<Rightarrow> real \<Rightarrow> real" where
  "atan2 y x =
     (if 0 < x then arctan (y / x)
      else if x < 0 then (if 0 \<le> y then arctan (y / x) + pi else arctan (y / x) - pi)
      else if 0 < y then pi / 2
      else if y < 0 then - (pi / 2)
      else 0)"

text \<open>The quantity \<^verbatim>\<open>a\<close> of the haversine formula.\<close>

definition haversine_a :: "real \<Rightarrow> real \<Rightarrow> real \<Rightarrow> real \<Rightarrow> real" where
  "haversine_a lat1 lon1 lat2 lon2 =
     (let lat1_rad = radians lat1;
          lat2_rad = radians lat2;
          dlat = radians (lat2 - lat1);
          dlon = radians (lon2 - lon1)
      in (sin (dlat / 2))\<^sup>2 + cos lat1_rad * cos lat2_rad * (sin (dlon / 2))\<^sup>2)"

text \<open>
  \<^verbatim>\<open>haversine_distance\<close>: the guard \<^verbatim>\<open>not all([lat1, lon1, lat2, lon2])\<close> answers
  \<^verbatim>\<open>float('inf')\<close> as soon as one argument is \<^verbatim>\<open>None\<close> or zero; \<^verbatim>\<open>math.sqrt\<close> raises
  \<^verbatim>\<open>ValueError\<close> on a negative argument.
\<close>

definition haversine_distance :: "coord \<Rightarrow> coord \<Rightarrow> coord \<Rightarrow> coord \<Rightarrow> error + pyfloat" where
  "haversine_distance lat1 lon1 lat2 lon2 =
     (if \<not> (truthy lat1 \<and> truthy lon1 \<and> truthy lat2 \<and> truthy lon2) then Inr PInf
      else
        let a = haversine_a (the lat1) (the lon1) (the lat2) (the lon2)
        in if a < 0 \<or> 1 - a < 0 then Inl ValueError
           else Inr (Fin (6371.0 * (2 * atan2 (sqrt a) (sqrt (1 - a))))))"

text \<open>\<^verbatim>\<open>SecurityValidator.validate_coordinates\<close> on two floats.\<close>

definition validate_coordinates :: "real \<Rightarrow> real \<Rightarrow> bool" where
  "validate_coordinates lat lon = (-90 \<le> lat \<and> lat \<le> 90 \<and> -180 \<le> lon \<and> lon \<le> 180)"

section \<open>Matching engine\<close>

text \<open>\<^verbatim>\<open>SELECT ... FROM leads WHERE id = ?\<close> followed by \<^verbatim>\<open>fetchone()\<close>.\<close>

definition fetch_lead :: "db \<Rightarrow> int \<Rightarrow> lead option" where
  "fetch_lead d i = find (\<lambda>l. lead_id l = i) (leads d)"

text \<open>\<^verbatim>\<open>WHERE status = 'active' AND skills LIKE ?\<close> with the pattern \<^verbatim>\<open>%service_lower%\<close>.\<close>

definition eligible :: "string \<Rightarrow> worker \<Rightarrow> bool" where
  "eligible service w =
     (worker_status w = ''active'' \<and> like (''%'' @ lower service @ ''%'') (skills w))"

text \<open>
  \<^verbatim>\<open>ORDER BY rating DESC, jobs_completed DESC\<close>: \<open>ranks_before a b\<close> when the
  ordering puts \<open>a\<close> strictly ahead of \<open>b\<close>. Rows that tie on both columns keep their
  table order.
\<close>

definition ranks_before :: "worker \<Rightarrow> worker \<Rightarrow> bool" where
  "ranks_before a b =
     (rating b < rating a \<or> (rating a = rating b \<and> jobs_completed b < jobs_completed a))"

fun insert_ranked :: "worker \<Rightarrow> worker list \<Rightarrow> worker list" where
  "insert_ranked w [] = [w]"
| "insert_ranked w (x # xs) =
     (if ranks_before x w then x # insert_ranked w xs else w # x # xs)"

definition order_by_rank :: "worker list \<Rightarrow> worker list" where
  "order_by_rank ws = foldr insert_ranked ws []"

definition select_workers :: "db \<Rightarrow> string \<Rightarrow> worker list" where
  "select_workers d service = order_by_rank (filter (eligible service) (workers d))"

text \<open>The distance the loop gives a worker: the haversine value or the default 999.\<close>

definition match_distance :: "coord \<Rightarrow> coord \<Rightarrow> worker \<Rightarrow> error + pyfloat" where
  "match_distance llat llon w =
     (if truthy (worker_lat w) \<and> truthy (worker_lon w) \<and> truthy llat \<and> truthy llon
      then haversine_distance llat llon (worker_lat w) (worker_lon w)
      else Inr (Fin 999.0))"

definition score :: "pyfloat \<Rightarrow> worker \<Rightarrow> pyfloat" where
  "score distance w = float_sub distance (rating w * 2)"

text \<open>
  The \<^verbatim>\<open>for worker in workers\<close> loop, on the pair \<^verbatim>\<open>(best_distance, best_worker)\<close>.
  The selected worker is returned with the \<^verbatim>\<open>'distance'\<close> entry added to its row.
\<close>

fun best_loop :: "coord \<Rightarrow> coord \<Rightarrow> worker list \<Rightarrow> pyfloat \<Rightarrow> (worker \<times> pyfloat) option
                    \<Rightarrow> error + (worker \<times> pyfloat) option" where
  "best_loop llat llon [] best_distance best_worker = Inr best_worker"
| "best_loop llat llon (w # ws) best_distance best_worker =
     (case match_distance llat llon w of
        Inl e \<Rightarrow> Inl e
      | Inr distance \<Rightarrow>
          if float_less (score distance w) best_distance
          then best_loop llat llon ws distance (Some (w, distance))
          else best_loop llat llon ws best_distance best_worker)"

definition find_best_worker :: "db \<Rightarrow> int \<Rightarrow> string \<Rightarrow> error + (worker \<times> pyfloat) option" where
  "find_best_worker d lid service =
     (case fetch_lead d lid of
        None \<Rightarrow> Inr None
      | Some l \<Rightarrow>
          let ws = select_workers d service
          in if ws = [] then Inr None
             else best_loop (lead_lat l) (lead_lon l) ws PInf None)"

text \<open>
  A statement of a transaction can raise for reasons outside the tables (a locked
  file, a full disk). \<open>fault\<close> names the statement of \<^verbatim>\<open>create_job\<close> that does.
\<close>

datatype fault = NoFault | InsertFails | UpdateFails | CommitFails

text \<open>
  \<^verbatim>\<open>INSERT INTO jobs\<close> on a connection with \<^verbatim>\<open>PRAGMA foreign_keys = ON\<close>: the statement
  raises \<^verbatim>\<open>IntegrityError\<close> (\<open>None\<close> here) unless both referenced rows exist. The new
  id is \<^verbatim>\<open>cur.lastrowid\<close>.
\<close>

definition insert_job :: "db \<Rightarrow> int \<Rightarrow> int \<Rightarrow> string \<Rightarrow> real \<Rightarrow> time \<Rightarrow> (db \<times> int) option" where
  "insert_job d lid wid service p now =
     (if list_ex (\<lambda>l. lead_id l = lid) (leads d) \<and> list_ex (\<lambda>w. worker_id w = wid) (workers d)
      then
        let jid = int (jobs_seq d) + 1;
            j = \<lparr>job_id = jid, job_lead_id = lid, job_worker_id = wid, job_service = service,
                 price = p, job_status = ''dispatched'', job_created_at = now\<rparr>
        in Some (d\<lparr>jobs := jobs d @ [j], jobs_seq := jobs_seq d + 1\<rparr>, jid)
      else None)"

text \<open>\<^verbatim>\<open>UPDATE leads SET status = 'contacted', updated_at = ? WHERE id = ?\<close>\<close>

definition mark_contacted :: "db \<Rightarrow> int \<Rightarrow> time \<Rightarrow> db" where
  "mark_contacted d lid now =
     d\<lparr>leads := map (\<lambda>l. if lead_id l = lid
                           then l\<lparr>lead_status := ''contacted'', lead_updated_at := Some now\<rparr>
                           else l) (leads d)\<rparr>"

text \<open>
  \<^verbatim>\<open>create_job\<close>: both statements run on one connection and become visible at
  \<^verbatim>\<open>conn.commit()\<close>. Every exception lands in the handler, which returns 0 without a
  commit; the connection is dropped there and its pending statements with it, so the
  database is the one the call started from.
\<close>

definition create_job :: "fault \<Rightarrow> db \<Rightarrow> int \<Rightarrow> int \<Rightarrow> string \<Rightarrow> real \<Rightarrow> time \<Rightarrow> db \<times> int" where
  "create_job f d lid wid service p now =
     (if f = InsertFails then (d, 0)
      else case insert_job d lid wid service p now of
        None \<Rightarrow> (d, 0)
      | Some (d1, jid) \<Rightarrow>
          if f = UpdateFails then (d, 0)
          else let d2 = mark_contacted d1 lid now
               in if f = CommitFails then (d, 0) else (d2, jid))"

text \<open>\<^verbatim>\<open>LIMIT ?\<close>: a negative bound is no bound.\<close>

definition sql_limit :: "int \<Rightarrow> 'a list \<Rightarrow> 'a list" where
  "sql_limit n xs = (if n < 0 then xs else take (nat n) xs)"

text \<open>\<^verbatim>\<open>WHERE status = 'new' AND category LIKE ? LIMIT ?\<close> with the pattern \<^verbatim>\<open>%service%\<close>.\<close>

definition select_new_leads :: "db \<Rightarrow> string \<Rightarrow> int \<Rightarrow> lead list" where
  "select_new_leads d service max_matches =
     sql_limit max_matches
       (filter (\<lambda>l. lead_status l = ''new'' \<and> like (''%'' @ service @ ''%'') (category l)) (leads d))"

text \<open>
  The \<^verbatim>\<open>for lead in leads\<close> loop of \<^verbatim>\<open>match_all_leads\<close>. An exception of
  \<^verbatim>\<open>find_best_worker\<close> is not caught: it ends the loop, after the jobs committed so far.
  \<open>flt\<close> gives the fault met by the \<^verbatim>\<open>create_job\<close> call of each lead.
\<close>

fun match_loop :: "(int \<Rightarrow> fault) \<Rightarrow> time \<Rightarrow> string \<Rightarrow> lead list \<Rightarrow> db \<Rightarrow> nat \<Rightarrow> db \<times> (error + nat)" where
  "match_loop flt now service [] d matched_count = (d, Inr matched_count)"
| "match_loop flt now service (l # ls) d matched_count =
     (case find_best_worker d (lead_id l) service of
        Inl e \<Rightarrow> (d, Inl e)
      | Inr None \<Rightarrow> match_loop flt now service ls d matched_count
      | Inr (Some (w, distance)) \<Rightarrow>
          (case create_job (flt (lead_id l)) d (lead_id l) (worker_id w) service 0.0 now of
             (d', jid) \<Rightarrow>
               if jid \<noteq> 0 then match_loop flt now service ls d' (matched_count + 1)
               else match_loop flt now service ls d' matched_count))"

definition match_all_leads :: "(int \<Rightarrow> fault) \<Rightarrow> time \<Rightarrow> db \<Rightarrow> string \<Rightarrow> int \<Rightarrow> db \<times> (error + nat)" where
  "match_all_leads flt now d service max_matches =
     (let ls = select_new_leads d service max_matches
      in if ls = [] then (d, Inr 0) else match_loop flt now service ls d 0)"

section \<open>Validation\<close>

definition char_code :: "char \<Rightarrow> nat" where
  "char_code c = of_char c"

text \<open>The class \<^verbatim>\<open>[\x00-\x1f\x7f-\x9f]\<close> that \<^verbatim>\<open>sanitize_string\<close> removes.\<close>

definition is_control :: "char \<Rightarrow> bool" where
  "is_control c = (char_code c \<le> 31 \<or> (127 \<le> char_code c \<and> char_code c \<le> 159))"

text \<open>ASCII whitespace, as \<^verbatim>\<open>str.strip()\<close> and the pattern \<^verbatim>\<open>\s\<close> take it.\<close>

definition is_space :: "char \<Rightarrow> bool" where
  "is_space c = ((9 \<le> char_code c \<and> char_code c \<le> 13) \<or> (28 \<le> char_code c \<and> char_code c \<le> 32))"

definition is_digit :: "char \<Rightarrow> bool" where
  "is_digit c = (48 \<le> char_code c \<and> char_code c \<le> 57)"

definition is_alpha :: "char \<Rightarrow> bool" where
  "is_alpha c = ((65 \<le> char_code c \<and> char_code c \<le> 90) \<or> (97 \<le> char_code c \<and> char_code c \<le> 122))"

definition strip :: "string \<Rightarrow> string" where
  "strip s = rev (dropWhile is_space (rev (dropWhile is_space s)))"

definition sanitize_string :: "string \<Rightarrow> nat \<Rightarrow> string" where
  "sanitize_string text max_length =
     (if text = [] then []
      else strip (take max_length (filter (\<lambda>c. \<not> is_control c) text)))"

definition MAX_NAME_LENGTH :: nat where "MAX_NAME_LENGTH = 500"
definition MAX_PHONE_LENGTH :: nat where "MAX_PHONE_LENGTH = 20"
definition MAX_EMAIL_LENGTH :: nat where "MAX_EMAIL_LENGTH = 100"
definition MAX_SKILLS_LENGTH :: nat where "MAX_SKILLS_LENGTH = 500"

text \<open>\<^verbatim>\<open>PHONE_PATTERN = ^\+?[\d\s\-\(\)]{6,20}$\<close>\<close>

definition phone_char :: "char \<Rightarrow> bool" where
  "phone_char c = (is_digit c \<or> is_space c \<or> c = CHR ''-'' \<or> c = CHR ''('' \<or> c = CHR '')'')"

definition PHONE_PATTERN :: "string \<Rightarrow> bool" where
  "PHONE_PATTERN s =
     (let body = (case s of [] \<Rightarrow> [] | c # r \<Rightarrow> if c = CHR ''+'' then r else s)
      in 6 \<le> length body \<and> length body \<le> 20 \<and> list_all phone_char body)"

definition validate_phone :: "string \<Rightarrow> bool" where
  "validate_phone phone = (phone \<noteq> [] \<and> PHONE_PATTERN (strip phone))"

text \<open>\<^verbatim>\<open>EMAIL_PATTERN = ^[a-zA-Z0-9._%+-]+@[a-zA-Z0-9.-]+\.[a-zA-Z]{2,}$\<close>\<close>

definition local_char :: "char \<Rightarrow> bool" where
  "local_char c = (is_alpha c \<or> is_digit c \<or> c \<in> set ''._%+-'')"

definition domain_char :: "char \<Rightarrow> bool" where
  "domain_char c = (is_alpha c \<or> is_digit c \<or> c \<in> set ''.-'')"

text \<open>
  No class of the pattern holds \<^verbatim>\<open>@\<close>, so the local part ends at the first one; the
  last group holds letters only, so it starts after the last dot.
\<close>

definition EMAIL_PATTERN :: "string \<Rightarrow> bool" where
  "EMAIL_PATTERN s =
     (let local_part = takeWhile (\<lambda>c. c \<noteq> CHR ''@'') s;
          rest = dropWhile (\<lambda>c. c \<noteq> CHR ''@'') s;
          dom = tl rest;
          tld = rev (takeWhile (\<lambda>c. c \<noteq> CHR ''.'') (rev dom));
          host = rev (tl (dropWhile (\<lambda>c. c \<noteq> CHR ''.'') (rev dom)))
      in local_part \<noteq> [] \<and> list_all local_char local_part
         \<and> rest \<noteq> []
         \<and> CHR ''.'' \<in> set dom
         \<and> host \<noteq> [] \<and> list_all domain_char host
         \<and> 2 \<le> length tld \<and> list_all is_alpha tld)"

definition validate_email :: "string \<Rightarrow> bool" where
  "validate_email email = (email \<noteq> [] \<and> EMAIL_PATTERN (lower (strip email)))"

section \<open>Writing workers and leads\<close>

text \<open>
  The idiom \<^verbatim>\<open>if phone and not validator.validate_phone(phone): phone = ""\<close> of
  \<^verbatim>\<open>collect_leads\<close> and \<^verbatim>\<open>import_from_csv\<close>, and the same for the email.
\<close>

definition clear_invalid_phone :: "string \<Rightarrow> string" where
  "clear_invalid_phone phone = (if phone \<noteq> [] \<and> \<not> validate_phone phone then [] else phone)"

definition clear_invalid_email :: "string \<Rightarrow> string" where
  "clear_invalid_email email = (if email \<noteq> [] \<and> \<not> validate_email email then [] else email)"

text \<open>
  \<^verbatim>\<open>INSERT INTO workers\<close>: \<^verbatim>\<open>UNIQUE(phone)\<close> raises \<^verbatim>\<open>IntegrityError\<close> (\<open>None\<close> here)
  when a row already carries that phone text, the empty text included.
\<close>

definition insert_worker :: "db \<Rightarrow> string \<Rightarrow> string \<Rightarrow> string \<Rightarrow> string \<Rightarrow> real \<Rightarrow> real \<Rightarrow> time
                              \<Rightarrow> (db \<times> int) option" where
  "insert_worker d name sk phone email lat lon now =
     (if list_ex (\<lambda>w. worker_phone w = phone) (workers d) then None
      else
        let wid = int (workers_seq d) + 1;
            w = \<lparr>worker_id = wid, worker_name = name, skills = sk, worker_phone = phone,
                 worker_email = email, worker_lat = Some lat, worker_lon = Some lon,
                 worker_status = ''active'', rating = 0.0, jobs_completed = 0,
                 worker_created_at = now\<rparr>
        in Some (d\<lparr>workers := workers d @ [w], workers_seq := workers_seq d + 1\<rparr>, wid))"


text \<open>
  A row of the CSV file as \<^verbatim>\<open>csv.DictReader\<close> hands it over, with the columns
  \<^verbatim>\<open>name, skills, phone, email, lat, lon\<close> present; \<open>row_full_name\<close> is \<open>None\<close> when
  the file has no such column. A coordinate cell is read by \<^verbatim>\<open>float(cell or 0)\<close>:
  \<open>None\<close> stands for a text that \<^verbatim>\<open>float\<close> rejects with \<^verbatim>\<open>ValueError\<close>.
\<close>

record csv_row =
  row_name :: string
  row_full_name :: "string option"
  row_skills :: string
  row_phone :: string
  row_email :: string
  row_lat :: "real option"
  row_lon :: "real option"

datatype row_outcome = Imported | Missing_name_or_skills | Duplicate_phone

text \<open>The body of the \<^verbatim>\<open>for row_num, row in enumerate(reader)\<close> loop.\<close>

definition import_row :: "db \<Rightarrow> csv_row \<Rightarrow> time \<Rightarrow> db \<times> row_outcome" where
  "import_row d row now =
     (let name = sanitize_string
                   (if row_name row \<noteq> [] then row_name row
                    else case row_full_name row of None \<Rightarrow> ''Unknown'' | Some n \<Rightarrow> n)
                   MAX_NAME_LENGTH;
          sk = sanitize_string (lower (row_skills row)) MAX_SKILLS_LENGTH;
          phone0 = sanitize_string (row_phone row) MAX_PHONE_LENGTH;
          email0 = sanitize_string (row_email row) MAX_EMAIL_LENGTH
      in if name = [] \<or> sk = [] then (d, Missing_name_or_skills)
         else
           let phone = clear_invalid_phone phone0;
               email = clear_invalid_email email0;
               (lat, lon) = (case (row_lat row, row_lon row) of
                               (Some la, Some lo) \<Rightarrow>
                                 if \<not> validate_coordinates la lo then (0.0, 0.0) else (la, lo)
                             | _ \<Rightarrow> (0.0, 0.0))
           in case insert_worker d name sk phone email lat lon now of
                None \<Rightarrow> (d, Duplicate_phone)
              | Some (d', wid) \<Rightarrow> (d', Imported))"

text \<open>
  \<^verbatim>\<open>import_from_csv\<close> on the rows of an existing, readable file: the rows are written on
  one connection and committed together after the loop; the count is returned.
\<close>

fun import_rows :: "db \<Rightarrow> csv_row list \<Rightarrow> time \<Rightarrow> nat \<Rightarrow> db \<times> nat" where
  "import_rows d [] now imported_count = (d, imported_count)"
| "import_rows d (row # rows) now imported_count =
     (case import_row d row now of
        (d', Imported) \<Rightarrow> import_rows d' rows now (imported_count + 1)
      | (d', _) \<Rightarrow> import_rows d' rows now imported_count)"

definition import_from_csv :: "db \<Rightarrow> csv_row list \<Rightarrow> time \<Rightarrow> db \<times> nat" where
  "import_from_csv d rows now = import_rows d rows now 0"





section \<open>Lookup cache\<close>

text \<open>
  The table \<^verbatim>\<open>api_cache\<close>, keyed by its unique \<^verbatim>\<open>query_hash\<close>; the payload is the
  list of candidates that \<^verbatim>\<open>json.dumps\<close> wrote and \<^verbatim>\<open>json.loads\<close> reads back.
\<close>

record 'a cache_entry =
  response_data :: "'a list"
  cache_created_at :: time
  expires_at :: time

datatype transport_error = Timeout | RequestException

text \<open>
  The collector: the cache table and the requests sent to the provider so far, each
  as the pair of its \<^verbatim>\<open>q\<close> and \<^verbatim>\<open>limit\<close> parameters.
\<close>

record 'a collector =
  api_cache :: "string \<rightharpoonup> 'a cache_entry"
  requests_sent :: "(string \<times> int) list"

definition CACHE_DURATION_HOURS :: nat where "CACHE_DURATION_HOURS = 24"

text \<open>A duration in the ticks of \<open>time\<close>, which are microseconds.\<close>

definition hours :: "nat \<Rightarrow> time" where
  "hours n = n * 3600 * 1000000"

text \<open>\<^verbatim>\<open>_get_cache_key\<close>, over the digest \<open>md5\<close>.\<close>

definition get_cache_key :: "(string \<Rightarrow> string) \<Rightarrow> string \<Rightarrow> string \<Rightarrow> string" where
  "get_cache_key md5 city query = md5 (lower city @ '':'' @ lower query)"

text \<open>\<^verbatim>\<open>_get_cached_results\<close>: the row with this hash and \<^verbatim>\<open>expires_at > now\<close>.\<close>

definition get_cached_results :: "'a collector \<Rightarrow> string \<Rightarrow> time \<Rightarrow> 'a list option" where
  "get_cached_results st cache_key now =
     (case api_cache st cache_key of
        None \<Rightarrow> None
      | Some e \<Rightarrow> if now < expires_at e then Some (response_data e) else None)"

text \<open>\<^verbatim>\<open>_cache_results\<close>: \<^verbatim>\<open>INSERT OR REPLACE\<close> at the instant \<open>now\<close>.\<close>

definition cache_results :: "'a collector \<Rightarrow> string \<Rightarrow> 'a list \<Rightarrow> time \<Rightarrow> 'a collector" where
  "cache_results st cache_key results now =
     st\<lparr>api_cache := (api_cache st)(cache_key \<mapsto>
          \<lparr>response_data = results, cache_created_at = now,
           expires_at = now + hours CACHE_DURATION_HOURS\<rparr>)\<rparr>"

text \<open>
  \<^verbatim>\<open>search_nominatim\<close> with the \<^verbatim>\<open>requests\<close> library present. \<open>provider\<close> is the
  external service: it answers a request with the decoded candidates or fails.
  \<open>now\<close> is the instant of the cache lookup and \<open>now'\<close> the instant the response is
  stored. The test \<^verbatim>\<open>if cached_results:\<close> is Python truthiness of an optional list.
\<close>

definition search_nominatim ::
  "(string \<Rightarrow> string) \<Rightarrow> (string \<Rightarrow> int \<Rightarrow> transport_error + 'a list) \<Rightarrow> time \<Rightarrow> time
   \<Rightarrow> 'a collector \<Rightarrow> string \<Rightarrow> string \<Rightarrow> int \<Rightarrow> 'a collector \<times> 'a list" where
  "search_nominatim md5 provider now now' st city0 query0 limit =
     (let city = sanitize_string city0 100;
          query = sanitize_string query0 100
      in if city = [] \<or> query = [] then (st, [])
         else
           let cache_key = get_cache_key md5 city query;
               cached_results = get_cached_results st cache_key now
           in if cached_results \<noteq> None \<and> cached_results \<noteq> Some [] then (st, the cached_results)
              else
                let q = query @ '', '' @ city;
                    st1 = st\<lparr>requests_sent := requests_sent st @ [(q, min limit 50)]\<rparr>
                in case provider q (min limit 50) of
                     Inl failure \<Rightarrow> (st1, [])
                   | Inr results \<Rightarrow> (cache_results st1 cache_key results now', results))"

section \<open>Example data\<close>

text \<open>A lead in Mumbai and two plumbers imported without coordinates.\<close>

definition demo_lead :: lead where
  "demo_lead = \<lparr>lead_id = 1, lead_name = ''Hotel Sea View'', category = ''plumbing'',
     address = ''Hotel Sea View'', lead_lat = Some 19.07, lead_lon = Some 72.87,
     lead_phone = [], lead_email = [], source = ''nominatim'',
     lead_status = ''new'', lead_created_at = 0, lead_updated_at = None\<rparr>"

definition worker_asha :: worker where
  "worker_asha = \<lparr>worker_id = 1, worker_name = ''Asha'', skills = ''plumbing'',
     worker_phone = ''9800000001'', worker_email = [], worker_lat = Some 0, worker_lon = Some 0,
     worker_status = ''active'', rating = 5, jobs_completed = 0, worker_created_at = 0\<rparr>"

definition worker_bala :: worker where
  "worker_bala = \<lparr>worker_id = 2, worker_name = ''Bala'', skills = ''plumbing'',
     worker_phone = ''9800000002'', worker_email = [], worker_lat = Some 0, worker_lon = Some 0,
     worker_status = ''active'', rating = 1, jobs_completed = 0, worker_created_at = 0\<rparr>"

definition demo_db :: db where
  "demo_db = \<lparr>leads = [demo_lead], workers = [worker_asha, worker_bala], jobs = [],
     leads_seq = 1, workers_seq = 2, jobs_seq = 0\<rparr>"

text \<open>A lead stored with the coordinates (0, 0) and a worker with a known position.\<close>

definition unknown_lead :: lead where
  "unknown_lead = \<lparr>lead_id = 2, lead_name = ''Cafe Marine'', category = ''plumbing'',
     address = ''Cafe Marine'', lead_lat = Some 0, lead_lon = Some 0,
     lead_phone = [], lead_email = [], source = ''nominatim'',
     lead_status = ''new'', lead_created_at = 0, lead_updated_at = None\<rparr>"

definition worker_chitra :: worker where
  "worker_chitra = \<lparr>worker_id = 3, worker_name = ''Chitra'', skills = ''Plumbing, Electrical'',
     worker_phone = ''9800000003'', worker_email = [], worker_lat = Some 19.08,
     worker_lon = Some 72.88, worker_status = ''active'', rating = 4.5, jobs_completed = 0,
     worker_created_at = 0\<rparr>"

definition located_db :: db where
  "located_db = \<lparr>leads = [unknown_lead], workers = [worker_chitra], jobs = [],
     leads_seq = 2, workers_seq = 3, jobs_seq = 0\<rparr>"

text \<open>Leads that have left the status \<^verbatim>\<open>new\<close>.\<close>

definition contacted_lead :: lead where
  "contacted_lead = demo_lead\<lparr>lead_id := 3, lead_status := ''contacted''\<rparr>"

definition converted_lead :: lead where
  "converted_lead = demo_lead\<lparr>lead_id := 5, lead_status := ''converted''\<rparr>"

definition mixed_db :: db where
  "mixed_db = \<lparr>leads = [demo_lead, contacted_lead, converted_lead], workers = [worker_asha],
     jobs = [], leads_seq = 5, workers_seq = 1, jobs_seq = 0\<rparr>"




text \<open>A provider that finds nothing, and the collector after one lookup at instant 0.\<close>

definition empty_collector :: "unit collector" where
  "empty_collector = \<lparr>api_cache = Map.empty, requests_sent = []\<rparr>"

definition no_results :: "string \<Rightarrow> int \<Rightarrow> transport_error + unit list" where
  "no_results q limit = Inr []"

definition first_lookup :: "unit collector" where
  "first_lookup =
     fst (search_nominatim (\<lambda>s. s) no_results 0 0 empty_collector ''Mumbai'' ''plumber'' 20)"

section \<open>Facts about strings and \<^verbatim>\<open>LIKE\<close>\<close>

lemma lower_char_idem: "lower_char (lower_char c) = lower_char c"
  by (simp add: lower_char_def ascii_uppercase_def ascii_lowercase_def)

lemma lower_char_percent: "(lower_char c = CHR ''%'') = (c = CHR ''%'')"
  by (simp add: lower_char_def ascii_uppercase_def ascii_lowercase_def)

lemma lower_char_underscore: "(lower_char c = CHR ''_'') = (c = CHR ''_'')"
  by (simp add: lower_char_def ascii_uppercase_def ascii_lowercase_def)

lemma like_percent_all: "like ''%'' t"
  by (induction t) auto

lemma like_percent: "like (CHR ''%'' # ps) t = (\<exists>k\<le>length t. like ps (drop k t))"
proof (induction t)
  case Nil
  then show ?case by simp
next
  case (Cons c cs)
  have "(\<exists>k\<le>length (c # cs). like ps (drop k (c # cs)))
        = (like ps (c # cs) \<or> (\<exists>k\<le>length cs. like ps (drop k cs)))"
  proof
    assume "\<exists>k\<le>length (c # cs). like ps (drop k (c # cs))"
    then obtain k where k: "k \<le> length (c # cs)" "like ps (drop k (c # cs))" by blast
    show "like ps (c # cs) \<or> (\<exists>k\<le>length cs. like ps (drop k cs))"
    proof (cases k)
      case 0
      with k show ?thesis by simp
    next
      case (Suc j)
      with k show ?thesis by auto
    qed
  next
    assume "like ps (c # cs) \<or> (\<exists>k\<le>length cs. like ps (drop k cs))"
    then show "\<exists>k\<le>length (c # cs). like ps (drop k (c # cs))"
    proof
      assume "like ps (c # cs)"
      then have "0 \<le> length (c # cs) \<and> like ps (drop 0 (c # cs))" by simp
      then show ?thesis by blast
    next
      assume "\<exists>k\<le>length cs. like ps (drop k cs)"
      then obtain k where "k \<le> length cs" "like ps (drop k cs)" by blast
      then have "Suc k \<le> length (c # cs) \<and> like ps (drop (Suc k) (c # cs))" by simp
      then show ?thesis by blast
    qed
  qed
  with Cons show ?case by simp
qed

lemma like_literal:
  "CHR ''%'' \<notin> set s \<Longrightarrow> CHR ''_'' \<notin> set s \<Longrightarrow>
   like (s @ q) t = (\<exists>t1 t2. t = t1 @ t2 \<and> map lower_char t1 = map lower_char s \<and> like q t2)"
proof (induction s arbitrary: t)
  case Nil
  then show ?case by simp
next
  case (Cons p ps)
  show ?case
  proof (cases t)
    case Nil
    with Cons.prems show ?thesis by auto
  next
    case (Cons c cs)
    have ih: "like (ps @ q) cs = (\<exists>t1 t2. cs = t1 @ t2 \<and> map lower_char t1 = map lower_char ps \<and> like q t2)"
      using Cons.IH Cons.prems by simp
    show ?thesis
    proof
      assume "like ((p # ps) @ q) t"
      with Cons Cons.prems have a: "lower_char p = lower_char c" "like (ps @ q) cs" by auto
      then obtain t1 t2 where "cs = t1 @ t2" "map lower_char t1 = map lower_char ps" "like q t2"
        using ih by blast
      with a Cons have "t = (c # t1) @ t2 \<and> map lower_char (c # t1) = map lower_char (p # ps) \<and> like q t2"
        by simp
      then show "\<exists>t1 t2. t = t1 @ t2 \<and> map lower_char t1 = map lower_char (p # ps) \<and> like q t2"
        by blast
    next
      assume "\<exists>t1 t2. t = t1 @ t2 \<and> map lower_char t1 = map lower_char (p # ps) \<and> like q t2"
      then obtain t1 t2 where h: "t = t1 @ t2" "map lower_char t1 = map lower_char (p # ps)" "like q t2"
        by blast
      then obtain c' t1' where t1: "t1 = c' # t1'" by (cases t1) auto
      with h Cons have "c' = c" "cs = t1' @ t2" "lower_char c = lower_char p"
        "map lower_char t1' = map lower_char ps" by auto
      with h ih have "like (ps @ q) cs" by blast
      with \<open>lower_char c = lower_char p\<close> Cons Cons.prems show "like ((p # ps) @ q) t" by auto
    qed
  qed
qed

lemma like_contains:
  assumes "CHR ''%'' \<notin> set service" "CHR ''_'' \<notin> set service"
  shows "like (CHR ''%'' # lower service @ ''%'') text = contains_ci text service"
proof -
  let ?s = "lower service"
  have wf1: "CHR ''%'' \<notin> set ?s"
    using assms(1) lower_char_percent unfolding lower_def set_map by (metis imageE)
  have wf2: "CHR ''_'' \<notin> set ?s"
    using assms(2) lower_char_underscore unfolding lower_def set_map by (metis imageE)
  note wf = wf1 wf2
  have idem: "map lower_char ?s = ?s"
    by (simp add: lower_def lower_char_idem)
  have "like (CHR ''%'' # ?s @ ''%'') text = (\<exists>k\<le>length text. like (?s @ ''%'') (drop k text))"
    using like_percent [of "?s @ ''%''" "text"] by simp
  also have "\<dots> = (\<exists>k\<le>length text. \<exists>t1 t2. drop k text = t1 @ t2 \<and> map lower_char t1 = ?s)"
    using like_literal [OF wf, of "''%''"] idem like_percent_all by simp
  also have "\<dots> = sublist ?s (lower text)"
  proof
    assume "\<exists>k\<le>length text. \<exists>t1 t2. drop k text = t1 @ t2 \<and> map lower_char t1 = ?s"
    then obtain k t1 t2 where h: "drop k text = t1 @ t2" "map lower_char t1 = ?s" by blast
    have "text = take k text @ t1 @ t2" using h(1) by (metis append_take_drop_id)
    then have "lower text = lower (take k text) @ ?s @ lower t2"
      using h(2) by (metis lower_def map_append)
    then show "sublist ?s (lower text)" unfolding sublist_def by blast
  next
    assume "sublist ?s (lower text)"
    then obtain ps ss where e: "lower text = ps @ ?s @ ss"
      unfolding sublist_def by blast
    have m: "map lower_char text = ps @ (?s @ ss)"
      using e by (simp add: lower_def)
    have "\<exists>us vs. text = us @ vs \<and> ps = map lower_char us \<and> ?s @ ss = map lower_char vs"
      using iffD1 [OF map_eq_append_conv, OF m] .
    then obtain t0 r where r: "text = t0 @ r" "?s @ ss = map lower_char r"
      by blast
    have "\<exists>us vs. r = us @ vs \<and> ?s = map lower_char us \<and> ss = map lower_char vs"
      using iffD1 [OF map_eq_append_conv, OF r(2) [symmetric]] .
    then obtain t1 t2 where t12: "r = t1 @ t2" "?s = map lower_char t1"
      by blast
    have t: "text = t0 @ t1 @ t2" "map lower_char t1 = ?s"
      using r(1) t12 by simp_all
    then have "length t0 \<le> length text \<and> drop (length t0) text = t1 @ t2 \<and> map lower_char t1 = ?s"
      by simp
    then show "\<exists>k\<le>length text. \<exists>t1 t2. drop k text = t1 @ t2 \<and> map lower_char t1 = ?s"
      by blast
  qed
  finally show ?thesis by (simp add: contains_ci_def)
qed

section \<open>Facts about the example data\<close>

lemma demo_select_plumbing: "select_workers demo_db ''plumbing'' = [worker_asha, worker_bala]"
  by (simp add: select_workers_def order_by_rank_def eligible_def demo_db_def worker_asha_def
      worker_bala_def ranks_before_def lower_def lower_char_def ascii_uppercase_def
      ascii_lowercase_def)

lemma demo_select_roofing: "select_workers demo_db ''roofing'' = []"
  by (simp add: select_workers_def order_by_rank_def eligible_def demo_db_def worker_asha_def
      worker_bala_def lower_def lower_char_def ascii_uppercase_def ascii_lowercase_def)

lemma demo_fetch_1: "fetch_lead demo_db 1 = Some demo_lead"
  by (simp add: fetch_lead_def demo_db_def demo_lead_def)

lemma demo_fetch_42: "fetch_lead demo_db 42 = None"
  by (simp add: fetch_lead_def demo_db_def demo_lead_def)







lemma san_mumbai: "sanitize_string ''Mumbai'' 100 = ''Mumbai''"
  by (simp add: sanitize_string_def strip_def is_space_def is_control_def char_code_def)

lemma san_plumber: "sanitize_string ''plumber'' 100 = ''plumber''"
  by (simp add: sanitize_string_def strip_def is_space_def is_control_def char_code_def)

lemma key_mp: "get_cache_key (\<lambda>s. s) ''Mumbai'' ''plumber'' = ''mumbai:plumber''"
  by (simp add: get_cache_key_def lower_def lower_char_def ascii_uppercase_def ascii_lowercase_def)

lemma first_lookup_eq:
  "first_lookup = \<lparr>api_cache = [''mumbai:plumber'' \<mapsto> \<lparr>response_data = [], cache_created_at = 0, expires_at = hours 24\<rparr>],
      requests_sent = [(''plumber, Mumbai'', 20)]\<rparr>"
  by (simp add: first_lookup_def search_nominatim_def san_mumbai san_plumber key_mp
      get_cached_results_def empty_collector_def no_results_def cache_results_def CACHE_DURATION_HOURS_def)

section \<open>Claims\<close>

subsection \<open>Worker selection\<close>

text \<open>
  C1 (divergence of the code). The claim: \<^verbatim>\<open>find_best_worker\<close> returns the eligible
  worker of minimal score \<open>distance - 2 * rating\<close>. The loop compares each score with
  \<^verbatim>\<open>best_distance\<close> and then stores the distance there, not the score. With the lead
  \<open>demo_lead\<close> and two eligible plumbers without coordinates, both at the penalty
  distance 999, Asha (rating 5) scores 989 and Bala (rating 1) scores 997: the loop
  takes Asha first and then replaces her by Bala, because 997 is below the stored
  distance 999. The worker returned does not have the minimal score.
\<close>

theorem find_best_worker_not_min_score:
  "find_best_worker demo_db 1 ''plumbing'' = Inr (Some (worker_bala, Fin 999))
   \<and> eligible ''plumbing'' worker_asha
   \<and> score (Fin 999) worker_asha = Fin 989 \<and> score (Fin 999) worker_bala = Fin 997"
proof -
  have da: "match_distance (lead_lat demo_lead) (lead_lon demo_lead) worker_asha = Inr (Fin 999)"
    by (simp add: match_distance_def truthy_def worker_asha_def)
  have db: "match_distance (lead_lat demo_lead) (lead_lon demo_lead) worker_bala = Inr (Fin 999)"
    by (simp add: match_distance_def truthy_def worker_bala_def)
  have sa: "score (Fin 999) worker_asha = Fin 989"
    by (simp add: score_def worker_asha_def)
  have sb: "score (Fin 999) worker_bala = Fin 997"
    by (simp add: score_def worker_bala_def)
  have e: "eligible ''plumbing'' worker_asha"
    by (simp add: eligible_def worker_asha_def lower_def lower_char_def ascii_uppercase_def
        ascii_lowercase_def)
  have f: "find_best_worker demo_db 1 ''plumbing'' = Inr (Some (worker_bala, Fin 999))"
    by (simp add: find_best_worker_def demo_fetch_1 demo_select_plumbing da db sa sb)
  from f e sa sb show ?thesis by simp
qed

subsection \<open>Job creation\<close>

lemma insert_job_Some:
  "insert_job d lid wid service p now = Some (d1, jid) \<Longrightarrow>
     jid = int (jobs_seq d) + 1 \<and> leads d1 = leads d \<and> workers d1 = workers d
     \<and> jobs d1 = jobs d @ [\<lparr>job_id = jid, job_lead_id = lid, job_worker_id = wid, job_service = service,
                 price = p, job_status = ''dispatched'', job_created_at = now\<rparr>]
     \<and> list_ex (\<lambda>l. lead_id l = lid) (leads d) \<and> list_ex (\<lambda>w. worker_id w = wid) (workers d)"
  by (auto simp: insert_job_def Let_def split: if_splits)

lemma map_contacted_status:
  "list_all (\<lambda>l. lead_status l = ''contacted'' \<and> lead_updated_at l = Some now)
     (filter (\<lambda>l. lead_id l = lid)
        (map (\<lambda>l. if lead_id l = lid
                   then l\<lparr>lead_status := ''contacted'', lead_updated_at := Some now\<rparr> else l) xs))"
  by (induction xs) auto

lemma mark_contacted_status:
  "list_all (\<lambda>l. lead_status l = ''contacted'' \<and> lead_updated_at l = Some now)
     (filter (\<lambda>l. lead_id l = lid) (leads (mark_contacted d lid now)))"
  by (simp add: mark_contacted_def map_contacted_status)

lemma map_contacted_ex:
  "list_ex (\<lambda>l. lead_id l = lid)
     (map (\<lambda>l. if lead_id l = lid
                then l\<lparr>lead_status := ''contacted'', lead_updated_at := Some now\<rparr> else l) xs)
   = list_ex (\<lambda>l. lead_id l = lid) xs"
  by (induction xs) auto

lemma mark_contacted_ex:
  "list_ex (\<lambda>l. lead_id l = lid) (leads (mark_contacted d lid now)) = list_ex (\<lambda>l. lead_id l = lid) (leads d)"
  by (simp add: mark_contacted_def map_contacted_ex)

lemma mark_contacted_jobs: "jobs (mark_contacted d lid now) = jobs d"
  by (simp add: mark_contacted_def)

lemma create_job_cases:
  "create_job f d lid wid service p now = (d, 0)
   \<or> (\<exists>d1. insert_job d lid wid service p now = Some (d1, int (jobs_seq d) + 1)
        \<and> create_job f d lid wid service p now = (mark_contacted d1 lid now, int (jobs_seq d) + 1))"
  by (auto simp: create_job_def Let_def split: option.splits dest: insert_job_Some)

lemma create_job_success:
  assumes "list_ex (\<lambda>l. lead_id l = lid) (leads d)" "list_ex (\<lambda>w. worker_id w = wid) (workers d)"
  shows "\<exists>d1. insert_job d lid wid service p now = Some (d1, int (jobs_seq d) + 1)
      \<and> create_job NoFault d lid wid service p now = (mark_contacted d1 lid now, int (jobs_seq d) + 1)"
  using assms by (simp add: create_job_def insert_job_def Let_def)

lemma demo_create_job:
  "snd (create_job NoFault mixed_db 5 1 ''plumbing'' 0 7) = 1"
  by (simp add: create_job_def insert_job_def mixed_db_def demo_lead_def contacted_lead_def
      converted_lead_def worker_asha_def Let_def)

text \<open>
  C2. \<^verbatim>\<open>create_job\<close> is one transactional unit: whatever statement fails, either
  the call returns 0 and the database is the one it started from, or it returns the
  new job id, the job row (status \<^verbatim>\<open>dispatched\<close>) is appended and every lead row with
  that id has status \<^verbatim>\<open>contacted\<close> and the new timestamp. No state holds one write
  without the other.
\<close>

theorem create_job_atomic:
  "(snd (create_job f d lid wid service p now) = 0 \<and> fst (create_job f d lid wid service p now) = d)
   \<or> (0 < snd (create_job f d lid wid service p now)
      \<and> jobs (fst (create_job f d lid wid service p now)) =
          jobs d @ [\<lparr>job_id = snd (create_job f d lid wid service p now), job_lead_id = lid,
                     job_worker_id = wid, job_service = service, price = p,
                     job_status = ''dispatched'', job_created_at = now\<rparr>]
      \<and> list_ex (\<lambda>l. lead_id l = lid) (leads (fst (create_job f d lid wid service p now)))
      \<and> list_all (\<lambda>l. lead_status l = ''contacted'' \<and> lead_updated_at l = Some now)
          (filter (\<lambda>l. lead_id l = lid) (leads (fst (create_job f d lid wid service p now)))))"
proof -
  from create_job_cases [of f d lid wid service p now] show ?thesis
  proof
    assume "create_job f d lid wid service p now = (d, 0)"
    then show ?thesis by simp
  next
    assume "\<exists>d1. insert_job d lid wid service p now = Some (d1, int (jobs_seq d) + 1)
        \<and> create_job f d lid wid service p now = (mark_contacted d1 lid now, int (jobs_seq d) + 1)"
    then obtain d1 where i: "insert_job d lid wid service p now = Some (d1, int (jobs_seq d) + 1)"
      and c: "create_job f d lid wid service p now = (mark_contacted d1 lid now, int (jobs_seq d) + 1)"
      by blast
    from insert_job_Some [OF i] show ?thesis
      by (simp add: c mark_contacted_status mark_contacted_ex mark_contacted_jobs)
  qed
qed

theorem create_job_atomic_witness:
  "snd (create_job NoFault mixed_db 5 1 ''plumbing'' 0 7) = 1
   \<and> jobs (fst (create_job NoFault mixed_db 5 1 ''plumbing'' 0 7)) =
        jobs mixed_db @ [\<lparr>job_id = 1, job_lead_id = 5, job_worker_id = 1,
                          job_service = ''plumbing'', price = 0,
                          job_status = ''dispatched'', job_created_at = 7\<rparr>]
   \<and> list_ex (\<lambda>l. lead_id l = 5) (leads (fst (create_job NoFault mixed_db 5 1 ''plumbing'' 0 7)))
   \<and> list_all (\<lambda>l. lead_status l = ''contacted'' \<and> lead_updated_at l = Some 7)
        (filter (\<lambda>l. lead_id l = 5) (leads (fst (create_job NoFault mixed_db 5 1 ''plumbing'' 0 7))))"
  using create_job_atomic [of NoFault mixed_db 5 1 "''plumbing''" 0 7] demo_create_job
  by simp

text \<open>
  C10. \<^verbatim>\<open>create_job\<close> reads no status: for every existing lead and worker the call
  succeeds when no statement fails, and afterwards the lead has status
  \<^verbatim>\<open>contacted\<close>, whatever its status was before.
\<close>

theorem create_job_overwrites:
  assumes "list_ex (\<lambda>l. lead_id l = lid) (leads d)" "list_ex (\<lambda>w. worker_id w = wid) (workers d)"
  shows "0 < snd (create_job NoFault d lid wid service p now)
     \<and> list_ex (\<lambda>l. lead_id l = lid) (leads (fst (create_job NoFault d lid wid service p now)))
     \<and> list_all (\<lambda>l. lead_status l = ''contacted'')
          (filter (\<lambda>l. lead_id l = lid) (leads (fst (create_job NoFault d lid wid service p now))))"
proof -
  from create_job_success [OF assms, of service p now] obtain d1 where
    i: "insert_job d lid wid service p now = Some (d1, int (jobs_seq d) + 1)"
    and c: "create_job NoFault d lid wid service p now = (mark_contacted d1 lid now, int (jobs_seq d) + 1)"
    by blast
  have "list_all (\<lambda>l. lead_status l = ''contacted'')
          (filter (\<lambda>l. lead_id l = lid) (leads (mark_contacted d1 lid now)))"
    using mark_contacted_status [of now lid d1] by (simp add: list_all_iff)
  with insert_job_Some [OF i] show ?thesis
    by (simp add: c mark_contacted_ex)
qed

theorem create_job_overwrites_witness:
  "lead_status converted_lead = ''converted''
   \<and> list_ex (\<lambda>l. lead_id l = 5) (leads mixed_db)
   \<and> list_ex (\<lambda>w. worker_id w = 1) (workers mixed_db)
   \<and> 0 < snd (create_job NoFault mixed_db 5 1 ''plumbing'' 0 7)
   \<and> list_ex (\<lambda>l. lead_id l = 5) (leads (fst (create_job NoFault mixed_db 5 1 ''plumbing'' 0 7)))
   \<and> list_all (\<lambda>l. lead_status l = ''contacted'')
        (filter (\<lambda>l. lead_id l = 5) (leads (fst (create_job NoFault mixed_db 5 1 ''plumbing'' 0 7))))"
proof -
  have s: "lead_status converted_lead = ''converted''"
    by (simp add: converted_lead_def)
  have l: "list_ex (\<lambda>l. lead_id l = 5) (leads mixed_db)"
    by (simp add: mixed_db_def demo_lead_def contacted_lead_def converted_lead_def)
  have w: "list_ex (\<lambda>w. worker_id w = 1) (workers mixed_db)"
    by (simp add: mixed_db_def worker_asha_def)
  from create_job_overwrites [OF l w, of "''plumbing''" 0 7] s l w show ?thesis
    by simp
qed

subsection \<open>Batch matching\<close>

lemma sql_limit_subset: "set (sql_limit n xs) \<subseteq> set xs"
  by (auto simp: sql_limit_def dest: in_set_takeD)

lemma select_new_leads_new: "list_all (\<lambda>l. lead_status l = ''new'') (select_new_leads d service m)"
  using sql_limit_subset by (fastforce simp: select_new_leads_def list_all_iff)

lemma select_new_leads_sub: "set (select_new_leads d service m) \<subseteq> set (leads d)"
  using sql_limit_subset by (fastforce simp: select_new_leads_def)

lemma create_job_jobs:
  "jobs (fst (create_job f d lid wid service p now)) = jobs d
   \<or> (\<exists>j. jobs (fst (create_job f d lid wid service p now)) = jobs d @ [j] \<and> job_lead_id j = lid)"
proof -
  from create_job_cases [of f d lid wid service p now] show ?thesis
  proof
    assume "create_job f d lid wid service p now = (d, 0)"
    then show ?thesis by simp
  next
    assume "\<exists>d1. insert_job d lid wid service p now = Some (d1, int (jobs_seq d) + 1)
        \<and> create_job f d lid wid service p now = (mark_contacted d1 lid now, int (jobs_seq d) + 1)"
    then obtain d1 where i: "insert_job d lid wid service p now = Some (d1, int (jobs_seq d) + 1)"
      and c: "create_job f d lid wid service p now = (mark_contacted d1 lid now, int (jobs_seq d) + 1)"
      by blast
    from insert_job_Some [OF i] show ?thesis
      by (simp add: c mark_contacted_jobs)
  qed
qed

lemma match_loop_jobs:
  "\<exists>js. jobs (fst (match_loop flt now service ls d n)) = jobs d @ js
        \<and> set (map job_lead_id js) \<subseteq> lead_id ` set ls"
proof (induction ls arbitrary: d n)
  case Nil
  then show ?case by simp
next
  case (Cons l ls)
  show ?case
  proof (cases "find_best_worker d (lead_id l) service")
    case (Inl e)
    then show ?thesis by simp
  next
    case (Inr r)
    show ?thesis
    proof (cases r)
      case None
      with Inr Cons.IH [of d n] show ?thesis by auto
    next
      case (Some wd)
      obtain w dist where wd: "wd = (w, dist)" by (cases wd)
      let ?c = "create_job (flt (lead_id l)) d (lead_id l) (worker_id w) service 0 now"
      obtain d' jid where c: "?c = (d', jid)" by (cases ?c)
      have step: "match_loop flt now service (l # ls) d n
                  = match_loop flt now service ls d' (if jid \<noteq> 0 then n + 1 else n)"
        using Inr Some wd c by simp
      from create_job_jobs [of "flt (lead_id l)" d "lead_id l" "worker_id w" service 0 now] c
      obtain js0 where j0: "jobs d' = jobs d @ js0" "set (map job_lead_id js0) \<subseteq> {lead_id l}"
        by auto
      from Cons.IH [of d' "if jid \<noteq> 0 then n + 1 else n"] obtain js where
        js: "jobs (fst (match_loop flt now service ls d' (if jid \<noteq> 0 then n + 1 else n))) = jobs d' @ js"
            "set (map job_lead_id js) \<subseteq> lead_id ` set ls" by blast
      have "jobs (fst (match_loop flt now service (l # ls) d n)) = jobs d @ (js0 @ js)
            \<and> set (map job_lead_id (js0 @ js)) \<subseteq> lead_id ` set (l # ls)"
        using step j0 js by auto
      then show ?thesis by blast
    qed
  qed
qed

text \<open>
  C8. Every lead that \<^verbatim>\<open>match_all_leads\<close> selects has status \<^verbatim>\<open>new\<close>; a lead with
  status \<^verbatim>\<open>contacted\<close> is not selected, in any database state and so in any later
  invocation while it keeps that status; and every job the invocation adds refers to
  a lead that had status \<^verbatim>\<open>new\<close> when it started.
\<close>

theorem match_all_leads_only_new:
  "list_all (\<lambda>l. lead_status l = ''new'') (select_new_leads d service m)
   \<and> (lead_status l = ''contacted'' \<longrightarrow> l \<notin> set (select_new_leads d service m))
   \<and> (\<exists>js. jobs (fst (match_all_leads flt now d service m)) = jobs d @ js
        \<and> list_all (\<lambda>j. list_ex (\<lambda>l. lead_id l = job_lead_id j \<and> lead_status l = ''new'') (leads d)) js)"
proof -
  have a: "list_all (\<lambda>l. lead_status l = ''new'') (select_new_leads d service m)"
    by (rule select_new_leads_new)
  have b: "lead_status l = ''contacted'' \<longrightarrow> l \<notin> set (select_new_leads d service m)"
    using a by (auto simp: list_all_iff)
  let ?ls = "select_new_leads d service m"
  obtain js where js: "jobs (fst (match_loop flt now service ?ls d 0)) = jobs d @ js"
     "set (map job_lead_id js) \<subseteq> lead_id ` set ?ls"
    using match_loop_jobs [of flt now service ?ls d 0] by blast
  have sel: "\<And>x. x \<in> set ?ls \<Longrightarrow> x \<in> set (leads d) \<and> lead_status x = ''new''"
    using a select_new_leads_sub [of d service m] by (auto simp: list_all_iff)
  have ok: "list_all (\<lambda>j. list_ex (\<lambda>l. lead_id l = job_lead_id j \<and> lead_status l = ''new'') (leads d)) js"
    unfolding list_all_iff list_ex_iff
  proof
    fix j assume "j \<in> set js"
    then have "job_lead_id j \<in> lead_id ` set ?ls" using js(2) by auto
    then obtain x where "x \<in> set ?ls" "lead_id x = job_lead_id j" by auto
    with sel show "\<exists>l\<in>set (leads d). lead_id l = job_lead_id j \<and> lead_status l = ''new''" by blast
  qed
  have c: "\<exists>js. jobs (fst (match_all_leads flt now d service m)) = jobs d @ js
        \<and> list_all (\<lambda>j. list_ex (\<lambda>l. lead_id l = job_lead_id j \<and> lead_status l = ''new'') (leads d)) js"
  proof (cases "?ls = []")
    case True
    then have "jobs (fst (match_all_leads flt now d service m)) = jobs d @ []"
      by (simp add: match_all_leads_def)
    then show ?thesis by simp
  next
    case False
    then have "match_all_leads flt now d service m = match_loop flt now service ?ls d 0"
      by (simp add: match_all_leads_def)
    with js ok show ?thesis by auto
  qed
  from a b c show ?thesis by blast
qed

theorem match_all_leads_only_new_witness:
  "lead_status contacted_lead = ''contacted''
   \<and> contacted_lead \<in> set (leads mixed_db)
   \<and> contacted_lead \<notin> set (select_new_leads mixed_db ''plumbing'' 10)
   \<and> list_all (\<lambda>l. lead_status l = ''new'') (select_new_leads mixed_db ''plumbing'' 10)"
proof -
  have s: "lead_status contacted_lead = ''contacted''"
    by (simp add: contacted_lead_def)
  have m: "contacted_lead \<in> set (leads mixed_db)"
    by (simp add: mixed_db_def)
  from match_all_leads_only_new [of mixed_db "''plumbing''" 10 contacted_lead "\<lambda>i. NoFault" 7] s m
  show ?thesis by simp
qed

subsection \<open>Outcomes of the search for a worker\<close>

text \<open>
  C6 (as stated, false). The claim: an unknown lead id is reported by a value the
  caller can tell from the outcome "no eligible worker". In \<open>demo_db\<close> lead 42 does
  not exist, lead 1 exists and no worker offers roofing: both calls return the same
  value.
\<close>

theorem not_found_indistinguishable:
  "fetch_lead demo_db 42 = None \<and> fetch_lead demo_db 1 = Some demo_lead
   \<and> select_workers demo_db ''roofing'' = []
   \<and> find_best_worker demo_db 42 ''roofing'' = find_best_worker demo_db 1 ''roofing''"
  by (simp add: find_best_worker_def demo_fetch_1 demo_fetch_42 demo_select_roofing)

text \<open>
  C6 (amended). \<^verbatim>\<open>find_best_worker\<close> returns \<^verbatim>\<open>None\<close> for an unknown lead id, and
  returns the same \<^verbatim>\<open>None\<close> for a known lead when no worker is eligible: the returned
  value does not distinguish the two outcomes, and neither is an error.
\<close>

theorem find_best_worker_none:
  "(fetch_lead d lid = None \<longrightarrow> find_best_worker d lid service = Inr None)
   \<and> (select_workers d service = [] \<longrightarrow> find_best_worker d lid service = Inr None)"
  by (auto simp: find_best_worker_def split: option.splits)

theorem find_best_worker_none_witness:
  "fetch_lead demo_db 42 = None \<and> find_best_worker demo_db 42 ''plumbing'' = Inr None
   \<and> select_workers demo_db ''roofing'' = [] \<and> find_best_worker demo_db 1 ''roofing'' = Inr None"
  using find_best_worker_none [of demo_db 42 "''plumbing''"]
    find_best_worker_none [of demo_db 1 "''roofing''"] demo_fetch_42 demo_select_roofing
  by simp

subsection \<open>The penalty distance\<close>

lemma match_distance_penalty:
  "\<not> (truthy llat \<and> truthy llon) \<or> \<not> (truthy (worker_lat w) \<and> truthy (worker_lon w))
   \<Longrightarrow> match_distance llat llon w = Inr (Fin 999)"
  by (auto simp: match_distance_def)

text \<open>
  Once a worker is held at the penalty distance, the loop ends holding a worker at
  the penalty distance: the one it held or one of those it went through.
\<close>

lemma best_loop_penalty_some:
  assumes "\<not> (truthy llat \<and> truthy llon)"
  shows "\<exists>w'. best_loop llat llon ws bd (Some (w0, Fin 999)) = Inr (Some (w', Fin 999))
              \<and> (w' = w0 \<or> w' \<in> set ws)"
proof (induction ws arbitrary: bd w0)
  case Nil
  show ?case by simp
next
  case (Cons w ws)
  have md: "match_distance llat llon w = Inr (Fin 999)"
    using assms by (auto simp: match_distance_penalty)
  show ?case
  proof (cases "float_less (score (Fin 999) w) bd")
    case True
    from Cons.IH [of "Fin 999" w] obtain w' where
      "best_loop llat llon ws (Fin 999) (Some (w, Fin 999)) = Inr (Some (w', Fin 999))"
      "w' = w \<or> w' \<in> set ws" by blast
    then show ?thesis using True md by auto
  next
    case False
    from Cons.IH [of bd w0] obtain w' where
      "best_loop llat llon ws bd (Some (w0, Fin 999)) = Inr (Some (w', Fin 999))"
      "w' = w0 \<or> w' \<in> set ws" by blast
    then show ?thesis using False md by auto
  qed
qed

text \<open>From the initial pair \<^verbatim>\<open>(inf, None)\<close> the first worker is always taken.\<close>

lemma best_loop_penalty_start:
  assumes "\<not> (truthy llat \<and> truthy llon)" and "ws \<noteq> []"
  shows "\<exists>w'. best_loop llat llon ws PInf None = Inr (Some (w', Fin 999)) \<and> w' \<in> set ws"
proof (cases ws)
  case Nil
  with assms(2) show ?thesis by simp
next
  case (Cons w ws')
  have md: "match_distance llat llon w = Inr (Fin 999)"
    using assms(1) by (auto simp: match_distance_penalty)
  have fl: "float_less (score (Fin 999) w) PInf"
    by (simp add: score_def)
  from best_loop_penalty_some [OF assms(1), of ws' "Fin 999" w] obtain w' where
    "best_loop llat llon ws' (Fin 999) (Some (w, Fin 999)) = Inr (Some (w', Fin 999))"
    "w' = w \<or> w' \<in> set ws'" by blast
  then show ?thesis using Cons md fl by auto
qed

lemma located_fetch: "fetch_lead located_db 2 = Some unknown_lead"
  by (simp add: fetch_lead_def located_db_def unknown_lead_def)

lemma unknown_lead_falsy: "\<not> (truthy (lead_lat unknown_lead) \<and> truthy (lead_lon unknown_lead))"
  by (simp add: truthy_def unknown_lead_def)

lemma located_select: "select_workers located_db ''plumbing'' = [worker_chitra]"
  by (simp add: select_workers_def order_by_rank_def eligible_def located_db_def
      worker_chitra_def lower_def lower_char_def ascii_uppercase_def ascii_lowercase_def)

text \<open>
  C4. When a coordinate of the lead, or of the worker, is 0 or absent, the distance
  the loop gives that worker is exactly 999. For a lead whose coordinates are 0 or
  absent, whenever an eligible worker exists \<^verbatim>\<open>find_best_worker\<close> returns one of the
  eligible workers, and the distance it returns with that worker is 999, never a
  computed value.
\<close>

theorem penalty_distance:
  "(\<not> (truthy llat \<and> truthy llon) \<or> \<not> (truthy (worker_lat w) \<and> truthy (worker_lon w))
      \<longrightarrow> match_distance llat llon w = Inr (Fin 999))
   \<and> (fetch_lead d lid = Some l \<and> \<not> (truthy (lead_lat l) \<and> truthy (lead_lon l))
        \<and> select_workers d service \<noteq> []
      \<longrightarrow> (\<exists>w'. find_best_worker d lid service = Inr (Some (w', Fin 999))
                \<and> w' \<in> set (select_workers d service)))"
proof -
  have a: "\<not> (truthy llat \<and> truthy llon) \<or> \<not> (truthy (worker_lat w) \<and> truthy (worker_lon w))
      \<longrightarrow> match_distance llat llon w = Inr (Fin 999)"
    using match_distance_penalty [of llat llon w] by blast
  have b: "fetch_lead d lid = Some l \<and> \<not> (truthy (lead_lat l) \<and> truthy (lead_lon l))
        \<and> select_workers d service \<noteq> []
      \<longrightarrow> (\<exists>w'. find_best_worker d lid service = Inr (Some (w', Fin 999))
                \<and> w' \<in> set (select_workers d service))"
  proof
    assume h: "fetch_lead d lid = Some l \<and> \<not> (truthy (lead_lat l) \<and> truthy (lead_lon l))
        \<and> select_workers d service \<noteq> []"
    then have n: "\<not> (truthy (lead_lat l) \<and> truthy (lead_lon l))"
      and ne: "select_workers d service \<noteq> []"
      and f: "fetch_lead d lid = Some l" by simp_all
    have "find_best_worker d lid service
          = best_loop (lead_lat l) (lead_lon l) (select_workers d service) PInf None"
      using f ne by (simp add: find_best_worker_def Let_def)
    with best_loop_penalty_start [OF n ne]
    show "\<exists>w'. find_best_worker d lid service = Inr (Some (w', Fin 999))
                \<and> w' \<in> set (select_workers d service)"
      by simp
  qed
  from a b show ?thesis by blast
qed

theorem penalty_distance_witness:
  "fetch_lead located_db 2 = Some unknown_lead
   \<and> \<not> (truthy (lead_lat unknown_lead) \<and> truthy (lead_lon unknown_lead))
   \<and> select_workers located_db ''plumbing'' = [worker_chitra]
   \<and> truthy (worker_lat worker_chitra) \<and> truthy (worker_lon worker_chitra)
   \<and> match_distance (lead_lat unknown_lead) (lead_lon unknown_lead) worker_chitra = Inr (Fin 999)
   \<and> find_best_worker located_db 2 ''plumbing'' = Inr (Some (worker_chitra, Fin 999))"
proof -
  have t: "truthy (worker_lat worker_chitra) \<and> truthy (worker_lon worker_chitra)"
    by (simp add: truthy_def worker_chitra_def)
  have ne: "select_workers located_db ''plumbing'' \<noteq> []"
    by (simp add: located_select)
  from penalty_distance [of "lead_lat unknown_lead" "lead_lon unknown_lead" worker_chitra
      located_db 2 unknown_lead "''plumbing''"] located_fetch unknown_lead_falsy ne
  have m: "match_distance (lead_lat unknown_lead) (lead_lon unknown_lead) worker_chitra
            = Inr (Fin 999)"
    and e: "\<exists>w'. find_best_worker located_db 2 ''plumbing'' = Inr (Some (w', Fin 999))
                \<and> w' \<in> set (select_workers located_db ''plumbing'')"
    by simp_all
  from e have v: "find_best_worker located_db 2 ''plumbing'' = Inr (Some (worker_chitra, Fin 999))"
    by (auto simp: located_select)
  from located_fetch unknown_lead_falsy located_select t m v show ?thesis by simp
qed

subsection \<open>Distance\<close>

lemma haversine_a_sym: "haversine_a a b c d = haversine_a c d a b"
proof -
  have 1: "radians (c - a) / 2 = - (radians (a - c) / 2)"
    by (simp add: radians_def field_simps)
  have 2: "radians (d - b) / 2 = - (radians (b - d) / 2)"
    by (simp add: radians_def field_simps)
  show ?thesis
    unfolding haversine_a_def Let_def 1 2 sin_minus power2_minus by (simp add: mult.commute)
qed

lemma hav_sym: "haversine_distance lat1 lon1 lat2 lon2 = haversine_distance lat2 lon2 lat1 lon1"
  unfolding haversine_distance_def
  by (simp add: haversine_a_sym [of "the lat1" "the lon1" "the lat2" "the lon2"] conj_ac)

lemma hav_self: "truthy lat \<Longrightarrow> truthy lon \<Longrightarrow> haversine_distance lat lon lat lon = Inr (Fin 0)"
  by (simp add: haversine_distance_def haversine_a_def radians_def atan2_def)

text \<open>
  C5 (as stated, false). The claim: \<open>distance(A, A) = 0\<close> for every well-formed
  \<open>A\<close>. The point (0, 10) on the equator is well-formed, and the guard of
  \<^verbatim>\<open>haversine_distance\<close> answers infinity there.
\<close>

theorem haversine_self_counterexample:
  "validate_coordinates 0 10
   \<and> haversine_distance (Some 0) (Some 10) (Some 0) (Some 10) = Inr PInf
   \<and> haversine_distance (Some 0) (Some 10) (Some 0) (Some 10) \<noteq> Inr (Fin 0)"
  by (simp add: validate_coordinates_def haversine_distance_def truthy_def)

text \<open>
  C5 (amended). \<^verbatim>\<open>haversine_distance\<close> is symmetric for all arguments;
  \<open>distance(A, A) = 0\<close> for every \<open>A\<close> whose latitude and longitude are both present
  and non-zero; when a coordinate of \<open>A\<close> is 0 or absent, \<open>distance(A, A)\<close> is
  infinity.
\<close>

theorem haversine_symmetric_self:
  "haversine_distance lat1 lon1 lat2 lon2 = haversine_distance lat2 lon2 lat1 lon1
   \<and> (truthy lat \<and> truthy lon \<longrightarrow> haversine_distance lat lon lat lon = Inr (Fin 0))
   \<and> (\<not> (truthy lat \<and> truthy lon) \<longrightarrow> haversine_distance lat lon lat lon = Inr PInf)"
proof -
  have a: "haversine_distance lat1 lon1 lat2 lon2 = haversine_distance lat2 lon2 lat1 lon1"
    by (rule hav_sym)
  have b: "truthy lat \<and> truthy lon \<longrightarrow> haversine_distance lat lon lat lon = Inr (Fin 0)"
    by (simp add: hav_self)
  have c: "\<not> (truthy lat \<and> truthy lon) \<longrightarrow> haversine_distance lat lon lat lon = Inr PInf"
    by (auto simp: haversine_distance_def)
  from a b c show ?thesis by blast
qed

theorem haversine_symmetric_self_witness:
  "truthy (Some 19.07) \<and> truthy (Some 72.87)
   \<and> haversine_distance (Some 19.07) (Some 72.87) (Some 19.07) (Some 72.87) = Inr (Fin 0)
   \<and> haversine_distance (Some 19.07) (Some 72.87) (Some 19.08) (Some 72.88)
       = haversine_distance (Some 19.08) (Some 72.88) (Some 19.07) (Some 72.87)
   \<and> \<not> (truthy (Some 0) \<and> truthy (Some 10))
   \<and> haversine_distance (Some 0) (Some 10) (Some 0) (Some 10) = Inr PInf"
proof -
  have t: "truthy (Some 19.07) \<and> truthy (Some 72.87)"
    by (simp add: truthy_def)
  have f: "\<not> (truthy (Some 0) \<and> truthy (Some 10))"
    by (simp add: truthy_def)
  from haversine_symmetric_self [of "Some 19.07" "Some 72.87" "Some 19.08" "Some 72.88"
      "Some 19.07" "Some 72.87"]
    haversine_symmetric_self [of "Some 19.07" "Some 72.87" "Some 19.08" "Some 72.88"
      "Some 0" "Some 10"] t f
  show ?thesis by simp
qed

subsection \<open>Eligibility\<close>

lemma set_insert_ranked: "set (insert_ranked w xs) = insert w (set xs)"
  by (induction xs) auto

lemma set_order_by_rank: "set (order_by_rank ws) = set ws"
  by (induction ws) (auto simp: order_by_rank_def set_insert_ranked)

text \<open>
  C9 (as stated, false). The claim: a worker is eligible exactly when it is active
  and its skills contain the service as a case-insensitive substring. The service
  text goes into the \<^verbatim>\<open>LIKE\<close> pattern unescaped: for the service \<^verbatim>\<open>_\<close> the plumber
  Asha is selected, and her skills do not contain an underscore.
\<close>

theorem wildcard_service_counterexample:
  "worker_asha \<in> set (select_workers demo_db ''_'')
   \<and> \<not> contains_ci (skills worker_asha) ''_''"
proof -
  have a: "select_workers demo_db ''_'' = [worker_asha, worker_bala]"
    by (simp add: select_workers_def order_by_rank_def eligible_def demo_db_def worker_asha_def
        worker_bala_def ranks_before_def lower_def lower_char_def ascii_uppercase_def
        ascii_lowercase_def)
  have b: "\<not> contains_ci (skills worker_asha) ''_''"
    by (simp add: contains_ci_def sublist_Cons_right worker_asha_def lower_def lower_char_def
        ascii_uppercase_def ascii_lowercase_def)
  from a b show ?thesis by simp
qed

text \<open>
  C9 (amended). For a service text that holds neither \<^verbatim>\<open>%\<close> nor \<^verbatim>\<open>_\<close>, the workers
  that \<^verbatim>\<open>find_best_worker\<close> selects are exactly the stored workers whose status is
  \<^verbatim>\<open>active\<close> and whose skills contain the service as a substring, compared without
  case; so skills \<^verbatim>\<open>Plumbing, Electrical\<close> match the services \<^verbatim>\<open>plumbing\<close> and
  \<^verbatim>\<open>ELECTRICAL\<close>.
\<close>

theorem eligible_substring:
  assumes "CHR ''%'' \<notin> set service" "CHR ''_'' \<notin> set service"
  shows "(w \<in> set (select_workers d service))
         = (w \<in> set (workers d) \<and> worker_status w = ''active'' \<and> contains_ci (skills w) service)"
  by (simp add: select_workers_def set_order_by_rank eligible_def like_contains [OF assms])

theorem eligible_substring_witness:
  "CHR ''%'' \<notin> set ''ELECTRICAL'' \<and> CHR ''_'' \<notin> set ''ELECTRICAL''
   \<and> contains_ci (skills worker_chitra) ''ELECTRICAL''
   \<and> contains_ci (skills worker_chitra) ''plumbing''
   \<and> worker_chitra \<in> set (select_workers located_db ''ELECTRICAL'')
   \<and> worker_chitra \<in> set (select_workers located_db ''plumbing'')"
proof -
  have a: "CHR ''%'' \<notin> set ''ELECTRICAL''" "CHR ''_'' \<notin> set ''ELECTRICAL''"
    by simp_all
  have b: "CHR ''%'' \<notin> set ''plumbing''" "CHR ''_'' \<notin> set ''plumbing''"
    by simp_all
  have c: "contains_ci (skills worker_chitra) ''ELECTRICAL''"
    by (simp add: contains_ci_def sublist_Cons_right worker_chitra_def lower_def lower_char_def
        ascii_uppercase_def ascii_lowercase_def)
  have d: "contains_ci (skills worker_chitra) ''plumbing''"
    by (simp add: contains_ci_def sublist_Cons_right worker_chitra_def lower_def lower_char_def
        ascii_uppercase_def ascii_lowercase_def)
  have m: "worker_chitra \<in> set (workers located_db)" "worker_status worker_chitra = ''active''"
    by (simp_all add: located_db_def worker_chitra_def)
  from eligible_substring [OF a, of worker_chitra located_db]
    eligible_substring [OF b, of worker_chitra located_db] a c d m
  show ?thesis by simp
qed

subsection \<open>Lookup cache\<close>

text \<open>
  C3 (divergence of the code). The claim: a response cached at \<open>T\<close>, an empty one
  included, answers every repeated lookup before \<open>T\<close> plus 24 hours with no new
  external call. The empty response of the first lookup is stored and is live one hour
  later, but \<^verbatim>\<open>if cached_results:\<close> takes the empty list for a miss: the second lookup
  sends a second request.
\<close>

theorem empty_response_refetched:
  "get_cached_results first_lookup ''mumbai:plumber'' (hours 1) = Some []
   \<and> requests_sent (fst (search_nominatim (\<lambda>s. s) no_results (hours 1) (hours 1) first_lookup ''Mumbai'' ''plumber'' 20))
     = [(''plumber, Mumbai'', 20), (''plumber, Mumbai'', 20)]"
  by (simp add: first_lookup_eq search_nominatim_def san_mumbai san_plumber key_mp
      get_cached_results_def no_results_def cache_results_def hours_def Let_def CACHE_DURATION_HOURS_def)


subsection \<open>Invalid phone and email values\<close>













end
